theory Spec2Isabelle
  imports Main
begin

section \<open>JavaScript values\<close>

text \<open>
  The session code handles three kinds of dynamic data: response bodies parsed from JSON,
  the React state cells \<open>user\<close> and \<open>error\<close> (initially \<open>null\<close>), and the
  objects the operations return. They are modelled by one datatype of JavaScript values.
  Numbers are restricted to integers, meant in the range that \<open>String\<close> prints digit by
  digit (magnitude below \<open>2^53\<close>); an object is the finite map of its own properties.
  A \<open>string\<close> is a list of bytes, so the Vietnamese messages of the source appear as
  their UTF-8 encoding.
\<close>

datatype js_value =
    JUndefined
  | JNull
  | JBool bool
  | JNum int
  | JStr string
  | JArr "js_value list"
  | JObj "string \<Rightarrow> js_value option"

text \<open>Truthiness, as tested by \<open>if (v)\<close>, \<open>!v\<close> and \<open>a || b\<close>.\<close>

fun truthy :: "js_value \<Rightarrow> bool" where
  "truthy JUndefined = False"
| "truthy JNull = False"
| "truthy (JBool b) = b"
| "truthy (JNum n) = (n \<noteq> 0)"
| "truthy (JStr s) = (s \<noteq> [])"
| "truthy (JArr xs) = True"
| "truthy (JObj m) = True"

definition js_or :: "js_value \<Rightarrow> js_value \<Rightarrow> js_value" where
  "js_or a b = (if truthy a then a else b)"

fun nullish :: "js_value \<Rightarrow> bool" where
  "nullish JUndefined = True"
| "nullish JNull = True"
| "nullish v = False"

text \<open>
  Exceptions. \<open>AxiosError r\<close> is the rejection of a request: \<open>r\<close> is the field
  \<open>error.response\<close>, absent when no response was received. \<open>TypeError\<close> is raised by
  reading a property of \<open>null\<close> or \<open>undefined\<close>; \<open>Error m\<close> is \<open>new Error(m)\<close>.
\<close>

record response =
  status :: nat
  data :: js_value

datatype exn = TypeError | AxiosError "response option" | Error string

text \<open>
  \<open>v.k\<close> for the property names the session code reads (\<open>access_token\<close>,
  \<open>detail\<close>, \<open>username\<close>, \<open>password\<close>, \<open>success\<close>): none of them is a
  built-in property of a primitive or of an array, so only objects can hold them.
  \<open>v?.k\<close> is the optional-chaining form, which yields \<open>undefined\<close> on a nullish \<open>v\<close>.
\<close>

fun get_prop :: "js_value \<Rightarrow> string \<Rightarrow> exn + js_value" where
  "get_prop JUndefined k = Inl TypeError"
| "get_prop JNull k = Inl TypeError"
| "get_prop (JObj m) k = Inr (case m k of None \<Rightarrow> JUndefined | Some v \<Rightarrow> v)"
| "get_prop v k = Inr JUndefined"

fun opt_prop :: "js_value \<Rightarrow> string \<Rightarrow> js_value" where
  "opt_prop (JObj m) k = (case m k of None \<Rightarrow> JUndefined | Some v \<Rightarrow> v)"
| "opt_prop v k = JUndefined"

text \<open>
  The conversion to a string that \<open>localStorage.setItem\<close> applies to the value it is
  given.
\<close>

fun digits :: "nat \<Rightarrow> string" where
  "digits n = (if n < 10 then [char_of (48 + n)] else digits (n div 10) @ [char_of (48 + n mod 10)])"

fun join_comma :: "string list \<Rightarrow> string" where
  "join_comma [] = []"
| "join_comma [s] = s"
| "join_comma (s # ss) = s @ '','' @ join_comma ss"

fun to_string :: "js_value \<Rightarrow> string" where
  "to_string JUndefined = ''undefined''"
| "to_string JNull = ''null''"
| "to_string (JBool b) = (if b then ''true'' else ''false'')"
| "to_string (JNum n) = (if n < 0 then ''-'' @ digits (nat (- n)) else digits (nat n))"
| "to_string (JStr s) = s"
| "to_string (JArr xs) = join_comma (map (\<lambda>v. if nullish v then [] else to_string v) xs)"
| "to_string (JObj m) = ''[object Object]''"

section \<open>The browser and the backend\<close>

datatype http_method = GET | POST | PUT | PATCH | DELETE

record request =
  verb :: http_method
  url :: string
  body :: js_value
  headers :: "string \<Rightarrow> string option"

text \<open>
  The backend is outside the repository. It is modelled as an oracle: \<open>bk n\<close> is what
  the client receives for the \<open>n\<close>-th request it issues, \<open>None\<close> when no response
  arrives (network failure). Every statement below quantifies over the oracle, so it
  covers each backend, also one whose answers depend on the requests seen so far.
  Every request is taken to settle; one that stays pending for ever is outside the model.
\<close>

type_synonym backend = "nat \<Rightarrow> response option"

datatype effect =
    StorageSet string string
  | StorageRemove string
  | Navigate string
  | ConsoleError exn

text \<open>The four React state cells of \<open>AuthProvider\<close>.\<close>

record session =
  user :: js_value
  isAuthenticated :: bool
  loading :: bool
  error :: js_value

text \<open>
  The client's world: \<open>localStorage\<close>, the session, the requests issued so far with what
  came back (\<open>net_log\<close>, oldest first), and the log of the other observable effects
  (storage writes, assignments to \<open>window.location.href\<close>, console output).
\<close>

record world =
  localStorage :: "string \<Rightarrow> string option"
  session :: session
  net_log :: "(request \<times> response option) list"
  effects :: "effect list"

definition getItem :: "string \<Rightarrow> world \<Rightarrow> string option" where
  "getItem k w = localStorage w k"

definition setItem :: "string \<Rightarrow> js_value \<Rightarrow> world \<Rightarrow> world" where
  "setItem k v w =
     w\<lparr>localStorage := (localStorage w)(k \<mapsto> to_string v),
       effects := effects w @ [StorageSet k (to_string v)]\<rparr>"

definition removeItem :: "string \<Rightarrow> world \<Rightarrow> world" where
  "removeItem k w =
     w\<lparr>localStorage := (localStorage w)(k := None),
       effects := effects w @ [StorageRemove k]\<rparr>"

definition set_location_href :: "string \<Rightarrow> world \<Rightarrow> world" where
  "set_location_href u w = w\<lparr>effects := effects w @ [Navigate u]\<rparr>"

definition console_error :: "exn \<Rightarrow> world \<Rightarrow> world" where
  "console_error e w = w\<lparr>effects := effects w @ [ConsoleError e]\<rparr>"

definition setUser :: "js_value \<Rightarrow> world \<Rightarrow> world" where
  "setUser v w = w\<lparr>session := (session w)\<lparr>user := v\<rparr>\<rparr>"

definition setIsAuthenticated :: "bool \<Rightarrow> world \<Rightarrow> world" where
  "setIsAuthenticated b w = w\<lparr>session := (session w)\<lparr>isAuthenticated := b\<rparr>\<rparr>"

definition setLoading :: "bool \<Rightarrow> world \<Rightarrow> world" where
  "setLoading b w = w\<lparr>session := (session w)\<lparr>loading := b\<rparr>\<rparr>"

definition setError :: "js_value \<Rightarrow> world \<Rightarrow> world" where
  "setError v w = w\<lparr>session := (session w)\<lparr>error := v\<rparr>\<rparr>"

section \<open>The request gateway (services/api.js)\<close>

text \<open>
  The request interceptor: \<open>if (token)\<close> is false for a missing entry and for the empty
  string.
\<close>

definition onRequest :: "request \<Rightarrow> world \<Rightarrow> request" where
  "onRequest config w =
     (case getItem ''token'' w of
        None \<Rightarrow> config
      | Some token \<Rightarrow>
          if token \<noteq> [] then config\<lparr>headers := (headers config)(''Authorization'' \<mapsto> ''Bearer '' @ token)\<rparr>
          else config)"

fun error_status :: "exn \<Rightarrow> nat option" where
  "error_status (AxiosError (Some r)) = Some (status r)"
| "error_status e = None"

text \<open>The rejection handler of the response interceptor; it always rejects again.\<close>

definition onResponseError :: "exn \<Rightarrow> world \<Rightarrow> (exn + response) \<times> world" where
  "onResponseError e w =
     (if error_status e = Some 401
      then (Inl e, set_location_href ''/login'' (removeItem ''token'' w))
      else (Inl e, w))"

text \<open>
  Axios resolves a request whose response status passes \<open>validateStatus\<close> (by default:
  from 200 to 299) and rejects it otherwise.
\<close>

definition validateStatus :: "nat \<Rightarrow> bool" where
  "validateStatus s = (200 \<le> s \<and> s < 300)"

text \<open>
  One request through the axios instance: the request interceptor, the exchange with the
  backend, then the response interceptor, whose fulfilment handler is the identity.
\<close>

definition api_request :: "backend \<Rightarrow> request \<Rightarrow> world \<Rightarrow> (exn + response) \<times> world" where
  "api_request bk config w =
     (let req = onRequest config w;
          res = bk (length (net_log w));
          w1 = w\<lparr>net_log := net_log w @ [(req, res)]\<rparr>
      in case res of
           None \<Rightarrow> onResponseError (AxiosError None) w1
         | Some r \<Rightarrow>
             if validateStatus (status r) then (Inr r, w1)
             else onResponseError (AxiosError (Some r)) w1)"

text \<open>
  The configuration the instance's methods (\<open>api.get\<close>, \<open>api.post\<close>, ...) start from:
  the headers are those of \<open>axios.create\<close> in the source.
\<close>

definition api_config :: "http_method \<Rightarrow> string \<Rightarrow> js_value \<Rightarrow> request" where
  "api_config m u b =
     \<lparr>verb = m, url = u, body = b, headers = [''Content-Type'' \<mapsto> ''application/json'']\<rparr>"

definition apiService_login :: "backend \<Rightarrow> js_value \<Rightarrow> world \<Rightarrow> (exn + response) \<times> world" where
  "apiService_login bk credentials = api_request bk (api_config POST ''/api/auth/login'' credentials)"

definition apiService_register :: "backend \<Rightarrow> js_value \<Rightarrow> world \<Rightarrow> (exn + response) \<times> world" where
  "apiService_register bk userData = api_request bk (api_config POST ''/api/auth/register'' userData)"

definition apiService_logout :: "backend \<Rightarrow> world \<Rightarrow> (exn + response) \<times> world" where
  "apiService_logout bk = api_request bk (api_config POST ''/api/auth/logout'' JUndefined)"

definition apiService_getCurrentUser :: "backend \<Rightarrow> world \<Rightarrow> (exn + response) \<times> world" where
  "apiService_getCurrentUser bk = api_request bk (api_config GET ''/api/auth/me'' JUndefined)"

section \<open>The session store (AuthProvider)\<close>

text \<open>
  The three messages of the source, as UTF-8 bytes: the fallback of \<open>login\<close>, the
  message of \<open>register\<close> when its automatic login fails, and the fallback of
  \<open>register\<close>.
\<close>

definition login_failed_message :: string where
  "login_failed_message = map (char_of :: nat \<Rightarrow> char)
    [196, 144, 196, 131, 110, 103, 32, 110, 104, 225, 186, 173, 112, 32, 116, 104, 225,
     186, 165, 116, 32, 98, 225, 186, 161, 105, 46, 32, 86, 117, 105, 32, 108, 195, 178,
     110, 103, 32, 116, 104, 225, 187, 173, 32, 108, 225, 186, 161, 105, 46]"

definition register_login_failed_message :: string where
  "register_login_failed_message = map (char_of :: nat \<Rightarrow> char)
    [196, 144, 196, 131, 110, 103, 32, 107, 195, 189, 32, 116, 104, 195, 160, 110, 104, 32,
     99, 195, 180, 110, 103, 32, 110, 104, 198, 176, 110, 103, 32, 196, 145, 196, 131, 110,
     103, 32, 110, 104, 225, 186, 173, 112, 32, 116, 104, 225, 186, 165, 116, 32, 98, 225,
     186, 161, 105, 46, 32, 86, 117, 105, 32, 108, 195, 178, 110, 103, 32, 196, 145, 196,
     131, 110, 103, 32, 110, 104, 225, 186, 173, 112, 32, 116, 104, 225, 187, 167, 32, 99,
     195, 180, 110, 103, 46]"

definition register_failed_message :: string where
  "register_failed_message = map (char_of :: nat \<Rightarrow> char)
    [196, 144, 196, 131, 110, 103, 32, 107, 195, 189, 32, 116, 104, 225, 186, 165, 116, 32,
     98, 225, 186, 161, 105, 46, 32, 86, 117, 105, 32, 108, 195, 178, 110, 103, 32, 116,
     104, 225, 187, 173, 32, 108, 225, 186, 161, 105, 46]"

text \<open>
  The state a freshly mounted \<open>AuthProvider\<close> starts from (its four \<open>useState\<close>
  calls).
\<close>

definition initial_session :: session where
  "initial_session = \<lparr>user = JNull, isAuthenticated = False, loading = True, error = JNull\<rparr>"

text \<open>
  An \<open>async\<close> function returns its value (\<open>Inr\<close>) or rejects (\<open>Inl\<close>), together with
  the world it leaves. \<open>checkAuth\<close>: the \<open>try\<close> branch, the \<open>catch\<close> branch, and
  \<open>setLoading(false)\<close> from \<open>finally\<close> after either.
\<close>

definition checkAuth :: "backend \<Rightarrow> world \<Rightarrow> (exn + js_value) \<times> world" where
  "checkAuth bk w =
     (case getItem ''token'' w of
        None \<Rightarrow> (Inr JUndefined, setLoading False w)
      | Some token \<Rightarrow>
          if token = [] then (Inr JUndefined, setLoading False w)
          else
            (case apiService_getCurrentUser bk w of
               (Inr response, w1) \<Rightarrow>
                 (Inr JUndefined,
                  setLoading False (setIsAuthenticated True (setUser (data response) w1)))
             | (Inl e, w1) \<Rightarrow>
                 (Inr JUndefined,
                  setLoading False
                    (setIsAuthenticated False (setUser JNull (removeItem ''token'' w1))))))"

text \<open>Mounting the provider: the initial state, then the effect that calls \<open>checkAuth\<close>.\<close>

definition AuthProvider_mount :: "backend \<Rightarrow> world \<Rightarrow> (exn + js_value) \<times> world" where
  "AuthProvider_mount bk w = checkAuth bk (w\<lparr>session := initial_session\<rparr>)"

text \<open>\<open>error.response?.data?.detail\<close>\<close>

fun error_detail :: "exn \<Rightarrow> js_value" where
  "error_detail (AxiosError (Some r)) = opt_prop (data r) ''detail''"
| "error_detail e = JUndefined"

text \<open>The body of the \<open>try\<close> block of \<open>login\<close>; \<open>Inl\<close> is what reaches \<open>catch\<close>.\<close>

definition login_try :: "backend \<Rightarrow> js_value \<Rightarrow> js_value \<Rightarrow> world \<Rightarrow> (exn + js_value) \<times> world" where
  "login_try bk username password w =
     (let w0 = setError JNull w in
      case apiService_login bk (JObj [''username'' \<mapsto> username, ''password'' \<mapsto> password]) w0 of
        (Inl e, w1) \<Rightarrow> (Inl e, w1)
      | (Inr response, w1) \<Rightarrow>
          (case get_prop (data response) ''access_token'' of
             Inl e \<Rightarrow> (Inl e, w1)
           | Inr access_token \<Rightarrow>
               (let w2 = setItem ''token'' access_token w1 in
                case apiService_getCurrentUser bk w2 of
                  (Inl e, w3) \<Rightarrow> (Inl e, w3)
                | (Inr userResponse, w3) \<Rightarrow>
                    (Inr (JObj [''success'' \<mapsto> JBool True]),
                     setIsAuthenticated True (setUser (data userResponse) w3)))))"

definition login_catch :: "exn \<Rightarrow> world \<Rightarrow> (exn + js_value) \<times> world" where
  "login_catch e w =
     (let errorMessage = js_or (error_detail e) (JStr login_failed_message) in
      (Inr (JObj [''success'' \<mapsto> JBool False, ''error'' \<mapsto> errorMessage]),
       setError errorMessage w))"

definition login :: "backend \<Rightarrow> js_value \<Rightarrow> js_value \<Rightarrow> world \<Rightarrow> (exn + js_value) \<times> world" where
  "login bk username password w =
     (case login_try bk username password w of
        (Inl e, w') \<Rightarrow> login_catch e w'
      | (Inr v, w') \<Rightarrow> (Inr v, w'))"

text \<open>
  \<open>register\<close>: the arguments \<open>userData.username\<close> and \<open>userData.password\<close> are
  read after the creation request has returned, inside the \<open>try\<close> block.
\<close>

definition register_try :: "backend \<Rightarrow> js_value \<Rightarrow> world \<Rightarrow> (exn + js_value) \<times> world" where
  "register_try bk userData w =
     (let w0 = setError JNull w in
      case apiService_register bk userData w0 of
        (Inl e, w1) \<Rightarrow> (Inl e, w1)
      | (Inr response, w1) \<Rightarrow>
          (case get_prop userData ''username'' of
             Inl e \<Rightarrow> (Inl e, w1)
           | Inr username \<Rightarrow>
               (case get_prop userData ''password'' of
                  Inl e \<Rightarrow> (Inl e, w1)
                | Inr password \<Rightarrow>
                    (case login bk username password w1 of
                       (Inl e, w2) \<Rightarrow> (Inl e, w2)
                     | (Inr loginResult, w2) \<Rightarrow>
                         (case get_prop loginResult ''success'' of
                            Inl e \<Rightarrow> (Inl e, w2)
                          | Inr ok \<Rightarrow>
                              if truthy ok
                              then (Inr (JObj [''success'' \<mapsto> JBool True, ''user'' \<mapsto> data response]), w2)
                              else (Inr (JObj [''success'' \<mapsto> JBool False,
                                               ''error'' \<mapsto> JStr register_login_failed_message]), w2))))))"

definition register_catch :: "exn \<Rightarrow> world \<Rightarrow> (exn + js_value) \<times> world" where
  "register_catch e w =
     (let errorMessage = js_or (error_detail e) (JStr register_failed_message) in
      (Inr (JObj [''success'' \<mapsto> JBool False, ''error'' \<mapsto> errorMessage]),
       setError errorMessage w))"

definition register :: "backend \<Rightarrow> js_value \<Rightarrow> world \<Rightarrow> (exn + js_value) \<times> world" where
  "register bk userData w =
     (case register_try bk userData w of
        (Inl e, w') \<Rightarrow> register_catch e w'
      | (Inr v, w') \<Rightarrow> (Inr v, w'))"

text \<open>
  \<open>logout\<close>: a rejected request is logged and dropped; the \<open>finally\<close> block runs after
  either outcome.
\<close>

definition logout :: "backend \<Rightarrow> world \<Rightarrow> (exn + js_value) \<times> world" where
  "logout bk w =
     (let w2 = (case apiService_logout bk w of
                  (Inl e, w1) \<Rightarrow> console_error e w1
                | (Inr response, w1) \<Rightarrow> w1)
      in (Inr JUndefined,
          setError JNull (setIsAuthenticated False (setUser JNull (removeItem ''token'' w2)))))"

text \<open>
  Whether an operation reported success: it returned, and the \<open>success\<close> property of
  what it returned is truthy (the test \<open>if (loginResult.success)\<close> of \<open>register\<close>).
\<close>

definition is_success :: "exn + js_value \<Rightarrow> bool" where
  "is_success x = (case x of Inl e \<Rightarrow> False | Inr res \<Rightarrow> truthy (opt_prop res ''success''))"

section \<open>The accessor (hooks/useAuth.js)\<close>

text \<open>
  \<open>useContext\<close> yields the value of the nearest enclosing provider, or the default the
  context was created with when there is none. \<open>providers\<close> lists the values of the
  enclosing providers, innermost first; a value is \<open>None\<close> for \<open>null\<close> and \<open>Some v\<close>
  for an object. \<open>AuthContext\<close> is created with the default \<open>null\<close>.
\<close>

definition useContext :: "'v option \<Rightarrow> 'v option list \<Rightarrow> 'v option" where
  "useContext dflt providers = (case providers of [] \<Rightarrow> dflt | v # vs \<Rightarrow> v)"

definition AuthContext_default :: "'v option" where
  "AuthContext_default = None"

definition useAuth :: "'v option list \<Rightarrow> exn + 'v" where
  "useAuth providers =
     (case useContext AuthContext_default providers of
        None \<Rightarrow> Inl (Error ''useAuth must be used within an AuthProvider'')
      | Some context \<Rightarrow> Inr context)"

text \<open>
  The value \<open>AuthProvider\<close> provides is an object: the four state cells, together with
  the four operations defined above.
\<close>

definition AuthProvider_value :: "world \<Rightarrow> session option" where
  "AuthProvider_value w = Some (session w)"

section \<open>Scenarios\<close>

text \<open>
  The rejection handlers of several requests that are in flight together run one after
  the other, in the order the responses arrive: the client is single-threaded.
\<close>

fun onResponseError_all :: "exn list \<Rightarrow> world \<Rightarrow> world" where
  "onResponseError_all [] w = w"
| "onResponseError_all (e # es) w = onResponseError_all es (snd (onResponseError e w))"

text \<open>
  A backend that plays a fixed script and is unreachable once the script has run out, a
  freshly started client with empty storage, and one with a token in storage.
\<close>

definition scripted :: "response option list \<Rightarrow> backend" where
  "scripted rs n = (if n < length rs then rs ! n else None)"

definition fresh_world :: world where
  "fresh_world = \<lparr>localStorage = Map.empty, session = initial_session, net_log = [], effects = []\<rparr>"

definition stored_world :: "string \<Rightarrow> world" where
  "stored_world t = fresh_world\<lparr>localStorage := [''token'' \<mapsto> t]\<rparr>"

text \<open>Sample answers of the backend, and sample registration data.\<close>

definition unauthorized :: response where
  "unauthorized = \<lparr>status = 401, data = JObj [''detail'' \<mapsto> JStr ''Could not validate credentials'']\<rparr>"

definition token_response :: response where
  "token_response = \<lparr>status = 200,
     data = JObj [''access_token'' \<mapsto> JStr ''T1'', ''token_type'' \<mapsto> JStr ''bearer'']\<rparr>"

definition profile :: js_value where
  "profile = JObj [''id'' \<mapsto> JNum 7, ''username'' \<mapsto> JStr ''u'', ''full_name'' \<mapsto> JStr ''U'',
     ''email'' \<mapsto> JStr ''u@example.org'', ''role'' \<mapsto> JStr ''user'']"

definition profile_response :: response where
  "profile_response = \<lparr>status = 200, data = profile\<rparr>"

definition created_response :: response where
  "created_response = \<lparr>status = 201, data = profile\<rparr>"

definition new_user :: js_value where
  "new_user = JObj [''username'' \<mapsto> JStr ''u'', ''password'' \<mapsto> JStr ''p'',
     ''email'' \<mapsto> JStr ''u@example.org'', ''full_name'' \<mapsto> JStr ''U'']"

definition bad_credentials :: response where
  "bad_credentials = \<lparr>status = 401, data = JObj [''detail'' \<mapsto> JStr ''Incorrect username or password'']\<rparr>"

definition empty_token_response :: response where
  "empty_token_response = \<lparr>status = 200, data = JObj [''access_token'' \<mapsto> JStr []]\<rparr>"

definition inactive_user :: response where
  "inactive_user = \<lparr>status = 400, data = JObj [''detail'' \<mapsto> JStr ''Inactive user'']\<rparr>"

section \<open>Properties of the gateway\<close>

lemmas store_defs = getItem_def setItem_def removeItem_def set_location_href_def
  console_error_def setUser_def setIsAuthenticated_def setLoading_def setError_def

lemmas scenario_defs = scripted_def fresh_world_def stored_world_def unauthorized_def
  token_response_def profile_response_def created_response_def new_user_def
  bad_credentials_def inactive_user_def empty_token_response_def validateStatus_def initial_session_def

lemmas run_defs = login_def login_try_def login_catch_def register_def register_try_def
  register_catch_def checkAuth_def AuthProvider_mount_def logout_def
  apiService_login_def apiService_register_def apiService_logout_def
  apiService_getCurrentUser_def api_request_def onResponseError_def onRequest_def
  api_config_def Let_def js_or_def is_success_def

text \<open>A request never touches the session cells, and logs exactly one exchange.\<close>

lemma api_request_session: "session (snd (api_request bk c w)) = session w"
  by (simp add: api_request_def onResponseError_def Let_def store_defs split: option.splits)

lemma api_request_net_log:
  "net_log (snd (api_request bk c w)) = net_log w @ [(onRequest c w, bk (length (net_log w)))]"
  by (simp add: api_request_def onResponseError_def Let_def store_defs split: option.splits)

text \<open>The only storage entry a request can change is the token, and only by removing it.\<close>

lemma api_request_storage_other:
  "k \<noteq> ''token'' \<Longrightarrow> localStorage (snd (api_request bk c w)) k = localStorage w k"
  by (simp add: api_request_def onResponseError_def Let_def store_defs split: option.splits)

text \<open>The three outcomes of a request.\<close>

lemma api_request_fulfilled:
  "bk (length (net_log w)) = Some r \<Longrightarrow> validateStatus (status r) \<Longrightarrow>
   api_request bk c w = (Inr r, w\<lparr>net_log := net_log w @ [(onRequest c w, Some r)]\<rparr>)"
  by (simp add: api_request_def Let_def)

lemma api_request_rejected:
  "bk (length (net_log w)) = Some r \<Longrightarrow> \<not> validateStatus (status r) \<Longrightarrow>
   api_request bk c w =
     onResponseError (AxiosError (Some r)) (w\<lparr>net_log := net_log w @ [(onRequest c w, Some r)]\<rparr>)"
  by (simp add: api_request_def Let_def)

lemma api_request_no_response:
  "bk (length (net_log w)) = None \<Longrightarrow>
   api_request bk c w = (Inl (AxiosError None), w\<lparr>net_log := net_log w @ [(onRequest c w, None)]\<rparr>)"
  by (simp add: api_request_def Let_def onResponseError_def)

lemma api_request_result:
  "fst (api_request bk c w) =
     (case bk (length (net_log w)) of
        None \<Rightarrow> Inl (AxiosError None)
      | Some r \<Rightarrow> if validateStatus (status r) then Inr r else Inl (AxiosError (Some r)))"
  by (simp add: api_request_def Let_def onResponseError_def split: option.splits)

text \<open>What the request interceptor does to the \<open>Authorization\<close> header of any request.\<close>

lemma onRequest_authorization:
  "headers (onRequest c w) ''Authorization'' =
     (case getItem ''token'' w of
        None \<Rightarrow> headers c ''Authorization''
      | Some t \<Rightarrow> if t = [] then headers c ''Authorization'' else Some (''Bearer '' @ t))"
  by (simp add: onRequest_def split: option.splits)

lemma onRequest_rest:
  "verb (onRequest c w) = verb c \<and> url (onRequest c w) = url c \<and> body (onRequest c w) = body c"
  by (simp add: onRequest_def split: option.splits)

text \<open>
  C7, as stated, fails when the stored token is the empty string: an entry is persisted,
  yet the request that goes out carries no \<open>Authorization\<close> header.
\<close>

theorem empty_token_no_header_counterexample:
  "getItem ''token'' (stored_world []) = Some []
   \<and> map (\<lambda>(q, a). headers q ''Authorization'')
        (net_log (snd (api_request (scripted []) (api_config GET ''/api/auth/me'' JUndefined)
                         (stored_world [])))) = [None]"
  by (simp add: api_request_net_log onRequest_authorization)
     (simp add: scenario_defs getItem_def api_config_def)

text \<open>
  The empty string does get into storage through the program itself: \<open>login\<close> stores
  whatever \<open>access_token\<close> the backend sends.
\<close>

lemma empty_token_reachable:
  "getItem ''token''
     (snd (login (scripted [Some empty_token_response, Some profile_response])
             (JStr ''u'') (JStr ''p'') fresh_world)) = Some []"
  by (simp add: run_defs scenario_defs store_defs)

text \<open>
  C7, amended. Every request made through the instance's methods goes out exactly once,
  with the method, URL and body it was given; it carries \<open>Authorization: Bearer t\<close> when
  a non-empty token \<open>t\<close> is stored at that moment, and no \<open>Authorization\<close> header
  when no token or the empty string is stored. This holds for every endpoint.
\<close>

theorem credential_attachment:
  "net_log (snd (api_request bk (api_config m u b) w)) =
     net_log w @ [(onRequest (api_config m u b) w, bk (length (net_log w)))]
   \<and> headers (onRequest (api_config m u b) w) ''Authorization'' =
       (case getItem ''token'' w of
          None \<Rightarrow> None
        | Some t \<Rightarrow> if t = [] then None else Some (''Bearer '' @ t))
   \<and> verb (onRequest (api_config m u b) w) = m
   \<and> url (onRequest (api_config m u b) w) = u
   \<and> body (onRequest (api_config m u b) w) = b"
  by (simp add: api_request_net_log onRequest_authorization onRequest_rest)
     (simp add: api_config_def split: option.splits)

text \<open>The handler of a 401 response, and a run of such handlers.\<close>

lemma onResponseError_401:
  "error_status e = Some 401 \<Longrightarrow>
   snd (onResponseError e w) =
     w\<lparr>localStorage := (localStorage w)(''token'' := None),
       effects := effects w @ [StorageRemove ''token'', Navigate ''/login'']\<rparr>"
  by (simp add: onResponseError_def removeItem_def set_location_href_def)

lemma onResponseError_all_effects:
  "\<forall>e\<in>set es. error_status e = Some 401 \<Longrightarrow>
   effects (onResponseError_all es w) =
     effects w @ concat (map (\<lambda>e. [StorageRemove ''token'', Navigate ''/login'']) es)"
proof (induction es arbitrary: w)
  case Nil
  show ?case by simp
next
  case (Cons e es)
  then have "error_status e = Some 401" and rest: "\<forall>e\<in>set es. error_status e = Some 401"
    by simp_all
  then show ?case
    by (simp add: onResponseError_401 Cons.IH[OF rest])
qed

lemma onResponseError_all_token:
  "\<forall>e\<in>set es. error_status e = Some 401 \<Longrightarrow>
   getItem ''token'' (onResponseError_all es w) = (if es = [] then getItem ''token'' w else None)"
proof (induction es arbitrary: w)
  case Nil
  show ?case by simp
next
  case (Cons e es)
  then have e: "error_status e = Some 401" and rest: "\<forall>e\<in>set es. error_status e = Some 401"
    by simp_all
  show ?case
    using Cons.IH[OF rest, of "snd (onResponseError e w)"]
    by (simp add: onResponseError_401[OF e] getItem_def)
qed

text \<open>
  C4, as stated, fails: two requests that both receive 401 make the gateway assign the
  login location twice (and call \<open>removeItem\<close> twice), not once.
\<close>

theorem two_unauthorized_counterexample:
  "count_list
     (effects (onResponseError_all [AxiosError (Some unauthorized), AxiosError (Some unauthorized)]
                 (stored_world ''abc'')))
     (Navigate ''/login'') = 2"
  by (simp add: onResponseError_def removeItem_def set_location_href_def scenario_defs)

text \<open>
  C4, amended. The gateway does not deduplicate. Each response with status 401 makes it
  remove the token entry and assign the login location once, so a single such request
  causes exactly one removal and one redirect, and \<open>n\<close> of them cause \<open>n\<close> removals and
  \<open>n\<close> redirects, all to the same location, in the order the responses arrive.
  Afterwards no token is stored.
\<close>

theorem unauthorized_once_per_response:
  "(bk (length (net_log w)) = Some r \<and> status r = 401 \<longrightarrow>
      effects (snd (api_request bk c w)) = effects w @ [StorageRemove ''token'', Navigate ''/login'']
      \<and> getItem ''token'' (snd (api_request bk c w)) = None)
   \<and> ((\<forall>e\<in>set es. error_status e = Some 401) \<longrightarrow>
      effects (onResponseError_all es w) =
        effects w @ concat (map (\<lambda>e. [StorageRemove ''token'', Navigate ''/login'']) es)
      \<and> getItem ''token'' (onResponseError_all es w) = (if es = [] then getItem ''token'' w else None))"
  by (simp add: onResponseError_all_effects onResponseError_all_token)
     (simp add: api_request_def Let_def validateStatus_def onResponseError_def store_defs)

theorem unauthorized_once_per_response_witness:
  "map error_status
     [AxiosError (Some unauthorized), AxiosError (Some unauthorized), AxiosError (Some unauthorized)]
     = [Some 401, Some 401, Some 401]
   \<and> effects (onResponseError_all
        [AxiosError (Some unauthorized), AxiosError (Some unauthorized), AxiosError (Some unauthorized)]
        (stored_world ''abc'')) =
       [StorageRemove ''token'', Navigate ''/login'', StorageRemove ''token'', Navigate ''/login'',
        StorageRemove ''token'', Navigate ''/login'']
   \<and> scripted [Some unauthorized] (length (net_log (stored_world ''abc''))) = Some unauthorized
   \<and> status unauthorized = 401
   \<and> effects (snd (api_request (scripted [Some unauthorized]) (api_config GET ''/api/tasks'' JUndefined)
                      (stored_world ''abc''))) = [StorageRemove ''token'', Navigate ''/login'']
   \<and> getItem ''token'' (snd (api_request (scripted [Some unauthorized])
                      (api_config GET ''/api/tasks'' JUndefined) (stored_world ''abc''))) = None"
  using unauthorized_once_per_response[where
      es = "[AxiosError (Some unauthorized), AxiosError (Some unauthorized), AxiosError (Some unauthorized)]"
      and w = "stored_world ''abc''" and bk = "scripted [Some unauthorized]" and r = unauthorized
      and c = "api_config GET ''/api/tasks'' JUndefined"]
  by (simp add: scenario_defs)

section \<open>Properties of the startup check\<close>

lemma checkAuth_no_token:
  "getItem ''token'' w = None \<or> getItem ''token'' w = Some [] \<Longrightarrow>
   checkAuth bk w = (Inr JUndefined, setLoading False w)"
  by (auto simp: checkAuth_def)

lemma checkAuth_net_log:
  "getItem ''token'' w = Some t \<Longrightarrow> t \<noteq> [] \<Longrightarrow>
   net_log (snd (checkAuth bk w)) =
     net_log w @ [(onRequest (api_config GET ''/api/auth/me'' JUndefined) w, bk (length (net_log w)))]"
  using api_request_net_log[of bk "api_config GET ''/api/auth/me'' JUndefined" w]
  by (cases "api_request bk (api_config GET ''/api/auth/me'' JUndefined) w")
     (simp add: checkAuth_def apiService_getCurrentUser_def store_defs split: sum.splits)

lemma checkAuth_session:
  "getItem ''token'' w = Some t \<Longrightarrow> t \<noteq> [] \<Longrightarrow>
   session (snd (checkAuth bk w)) =
     (case bk (length (net_log w)) of
        None \<Rightarrow> (session w)\<lparr>user := JNull, isAuthenticated := False, loading := False\<rparr>
      | Some r \<Rightarrow>
          if validateStatus (status r)
          then (session w)\<lparr>user := data r, isAuthenticated := True, loading := False\<rparr>
          else (session w)\<lparr>user := JNull, isAuthenticated := False, loading := False\<rparr>)"
  using api_request_session[of bk "api_config GET ''/api/auth/me'' JUndefined" w]
    api_request_result[of bk "api_config GET ''/api/auth/me'' JUndefined" w]
  by (cases "api_request bk (api_config GET ''/api/auth/me'' JUndefined) w")
     (auto simp add: checkAuth_def apiService_getCurrentUser_def store_defs split: sum.splits option.splits if_splits)

lemma checkAuth_token:
  "getItem ''token'' w = Some t \<Longrightarrow> t \<noteq> [] \<Longrightarrow>
   getItem ''token'' (snd (checkAuth bk w)) =
     (case bk (length (net_log w)) of
        None \<Rightarrow> None
      | Some r \<Rightarrow> if validateStatus (status r) then Some t else None)"
  by (auto simp add: checkAuth_def apiService_getCurrentUser_def api_request_def Let_def onResponseError_def store_defs split: sum.splits option.splits if_splits)

text \<open>
  C3, as stated, fails when the stored token is the empty string: \<open>checkAuth\<close> tests
  \<open>!token\<close>, which holds for it. An entry is persisted and the backend would answer
  the request for the current user with a 2xx response, yet no request goes out and the
  store ends not authenticated; with an unreachable backend the entry is not removed.
\<close>

theorem startup_empty_token_counterexample:
  "getItem ''token'' (stored_world []) = Some []
   \<and> scripted [Some profile_response] (length (net_log (stored_world []))) = Some profile_response
   \<and> validateStatus (status profile_response)
   \<and> isAuthenticated (session (snd (AuthProvider_mount (scripted [Some profile_response])
                                        (stored_world [])))) = False
   \<and> net_log (snd (AuthProvider_mount (scripted [Some profile_response]) (stored_world []))) = []
   \<and> scripted [] (length (net_log (stored_world []))) = None
   \<and> getItem ''token'' (snd (AuthProvider_mount (scripted []) (stored_world []))) = Some []"
  by (simp add: AuthProvider_mount_def checkAuth_def store_defs scenario_defs)

text \<open>
  C3, amended. A provider that mounts with no token in storage, or with the empty
  string there, issues no request, leaves storage as it is and ends with
  \<open>loading = false\<close>, not authenticated and without user. With a non-empty token in
  storage it issues exactly one request, for the current user: when the backend answers
  it with a 2xx response carrying \<open>P\<close>, the store ends authenticated with \<open>user = P\<close>
  and \<open>loading = false\<close>, the token kept; when the backend answers with an error
  response or not at all, the token is removed from storage and the store ends with
  \<open>loading = false\<close>, not authenticated and without user.
\<close>

theorem startup_check:
  "(getItem ''token'' w = None \<or> getItem ''token'' w = Some [] \<longrightarrow>
      net_log (snd (AuthProvider_mount bk w)) = net_log w
      \<and> localStorage (snd (AuthProvider_mount bk w)) = localStorage w
      \<and> session (snd (AuthProvider_mount bk w)) =
          \<lparr>user = JNull, isAuthenticated = False, loading = False, error = JNull\<rparr>)
   \<and> (getItem ''token'' w = Some t \<and> t \<noteq> [] \<and> bk (length (net_log w)) = Some r
        \<and> validateStatus (status r) \<and> data r = P \<longrightarrow>
      net_log (snd (AuthProvider_mount bk w)) =
        net_log w @ [(onRequest (api_config GET ''/api/auth/me'' JUndefined) w, Some r)]
      \<and> getItem ''token'' (snd (AuthProvider_mount bk w)) = Some t
      \<and> session (snd (AuthProvider_mount bk w)) =
          \<lparr>user = P, isAuthenticated = True, loading = False, error = JNull\<rparr>)
   \<and> (getItem ''token'' w = Some t \<and> t \<noteq> [] \<and> bk (length (net_log w)) = a
        \<and> (case a of None \<Rightarrow> True | Some r' \<Rightarrow> \<not> validateStatus (status r')) \<longrightarrow>
      net_log (snd (AuthProvider_mount bk w)) =
        net_log w @ [(onRequest (api_config GET ''/api/auth/me'' JUndefined) w, a)]
      \<and> getItem ''token'' (snd (AuthProvider_mount bk w)) = None
      \<and> session (snd (AuthProvider_mount bk w)) =
          \<lparr>user = JNull, isAuthenticated = False, loading = False, error = JNull\<rparr>)"
proof -
  let ?w = "w\<lparr>session := initial_session\<rparr>"
  have g: "getItem ''token'' ?w = getItem ''token'' w" and n: "net_log ?w = net_log w"
    and q: "onRequest c ?w = onRequest c w" for c
    by (simp_all add: getItem_def onRequest_def)
  have none: "net_log (snd (AuthProvider_mount bk w)) = net_log w
      \<and> localStorage (snd (AuthProvider_mount bk w)) = localStorage w
      \<and> session (snd (AuthProvider_mount bk w)) =
          \<lparr>user = JNull, isAuthenticated = False, loading = False, error = JNull\<rparr>"
    if "getItem ''token'' w = None \<or> getItem ''token'' w = Some []"
  proof -
    from that have "checkAuth bk ?w = (Inr JUndefined, setLoading False ?w)"
      by (intro checkAuth_no_token) (simp add: g)
    then show ?thesis
      by (simp add: AuthProvider_mount_def setLoading_def initial_session_def)
  qed
  have some: "net_log (snd (AuthProvider_mount bk w)) =
        net_log w @ [(onRequest (api_config GET ''/api/auth/me'' JUndefined) w, bk (length (net_log w)))]
      \<and> getItem ''token'' (snd (AuthProvider_mount bk w)) =
          (case bk (length (net_log w)) of
             None \<Rightarrow> None
           | Some r \<Rightarrow> if validateStatus (status r) then Some t else None)
      \<and> session (snd (AuthProvider_mount bk w)) =
          (case bk (length (net_log w)) of
             None \<Rightarrow> \<lparr>user = JNull, isAuthenticated = False, loading = False, error = JNull\<rparr>
           | Some r \<Rightarrow>
               if validateStatus (status r)
               then \<lparr>user = data r, isAuthenticated = True, loading = False, error = JNull\<rparr>
               else \<lparr>user = JNull, isAuthenticated = False, loading = False, error = JNull\<rparr>)"
    if "getItem ''token'' w = Some t" "t \<noteq> []"
  proof -
    from that have t: "getItem ''token'' ?w = Some t" by (simp add: g)
    have l: "net_log (snd (checkAuth bk ?w)) =
        net_log w @ [(onRequest (api_config GET ''/api/auth/me'' JUndefined) w, bk (length (net_log w)))]"
      using checkAuth_net_log[OF t that(2), of bk] by (simp only: n q)
    have k: "getItem ''token'' (snd (checkAuth bk ?w)) =
          (case bk (length (net_log w)) of
             None \<Rightarrow> None
           | Some r \<Rightarrow> if validateStatus (status r) then Some t else None)"
      using checkAuth_token[OF t that(2), of bk] by (simp only: n)
    have s: "session (snd (checkAuth bk ?w)) =
          (case bk (length (net_log w)) of
             None \<Rightarrow> initial_session\<lparr>user := JNull, isAuthenticated := False, loading := False\<rparr>
           | Some r \<Rightarrow>
               if validateStatus (status r)
               then initial_session\<lparr>user := data r, isAuthenticated := True, loading := False\<rparr>
               else initial_session\<lparr>user := JNull, isAuthenticated := False, loading := False\<rparr>)"
      using checkAuth_session[OF t that(2), of bk] by (simp add: n split: option.splits)
    show ?thesis
      unfolding AuthProvider_mount_def l k s
      by (simp add: initial_session_def split: option.splits)
  qed
  show ?thesis
    using none some by (auto split: option.splits)
qed

theorem startup_check_witness:
  "getItem ''token'' fresh_world = None
   \<and> net_log (snd (AuthProvider_mount (scripted []) fresh_world)) = net_log fresh_world
   \<and> loading (session (snd (AuthProvider_mount (scripted []) fresh_world))) = False
   \<and> getItem ''token'' (stored_world ''abc'') = Some ''abc''
   \<and> scripted [Some profile_response] (length (net_log (stored_world ''abc''))) = Some profile_response
   \<and> validateStatus (status profile_response)
   \<and> isAuthenticated (session (snd (AuthProvider_mount (scripted [Some profile_response])
                                        (stored_world ''abc'')))) = True
   \<and> user (session (snd (AuthProvider_mount (scripted [Some profile_response])
                             (stored_world ''abc'')))) = profile
   \<and> scripted [] (length (net_log (stored_world ''abc''))) = None
   \<and> getItem ''token'' (snd (AuthProvider_mount (scripted []) (stored_world ''abc''))) = None
   \<and> isAuthenticated (session (snd (AuthProvider_mount (scripted []) (stored_world ''abc'')))) = False"
proof -
  have g0: "getItem ''token'' fresh_world = None"
    by (simp add: fresh_world_def getItem_def)
  have g: "getItem ''token'' (stored_world ''abc'') = Some ''abc''"
    by (simp add: scenario_defs getItem_def)
  have b1: "scripted [Some profile_response] (length (net_log (stored_world ''abc''))) = Some profile_response"
    and b2: "scripted [] (length (net_log (stored_world ''abc''))) = None"
    and v: "validateStatus (status profile_response)"
    and d: "data profile_response = profile"
    by (simp_all add: scenario_defs)
  from startup_check[where w = fresh_world and bk = "scripted []"]
    startup_check[where w = "stored_world ''abc''" and t = "''abc''"
      and bk = "scripted [Some profile_response]" and r = profile_response and P = profile]
    startup_check[where w = "stored_world ''abc''" and t = "''abc''" and bk = "scripted []"
      and a = None]
    g0 g b1 b2 v d
  show ?thesis by simp
qed

section \<open>Properties of login\<close>

lemma login_catch_not_success: "\<not> is_success (fst (login_catch e w))"
  by (simp add: login_catch_def Let_def is_success_def)

text \<open>login, when both exchanges are fulfilled and the first body is not nullish\<close>

lemma login_fulfilled:
  assumes "bk (length (net_log w)) = Some r1" "validateStatus (status r1)"
    and "get_prop (data r1) ''access_token'' = Inr tok"
    and "bk (Suc (length (net_log w))) = Some r2" "validateStatus (status r2)"
  shows "fst (login bk username password w) = Inr (JObj [''success'' \<mapsto> JBool True])"
    and "session (snd (login bk username password w)) =
           (session w)\<lparr>user := data r2, isAuthenticated := True, error := JNull\<rparr>"
    and "localStorage (snd (login bk username password w)) =
           (localStorage w)(''token'' \<mapsto> to_string tok)"
proof -
  let ?w0 = "setError JNull w"
  let ?c = "api_config POST ''/api/auth/login'' (JObj [''username'' \<mapsto> username, ''password'' \<mapsto> password])"
  let ?w1 = "?w0\<lparr>net_log := net_log ?w0 @ [(onRequest ?c ?w0, Some r1)]\<rparr>"
  let ?w2 = "setItem ''token'' tok ?w1"
  let ?m = "api_config GET ''/api/auth/me'' JUndefined"
  let ?w3 = "?w2\<lparr>net_log := net_log ?w2 @ [(onRequest ?m ?w2, Some r2)]\<rparr>"
  have l0: "net_log ?w0 = net_log w" by (simp add: setError_def)
  have a1: "apiService_login bk (JObj [''username'' \<mapsto> username, ''password'' \<mapsto> password]) ?w0 = (Inr r1, ?w1)"
    unfolding apiService_login_def
    by (rule api_request_fulfilled) (simp_all add: l0 assms)
  have l2: "length (net_log ?w2) = Suc (length (net_log w))" by (simp add: setItem_def setError_def)
  have a2: "apiService_getCurrentUser bk ?w2 = (Inr r2, ?w3)"
    unfolding apiService_getCurrentUser_def
    by (rule api_request_fulfilled) (simp_all only: l2 assms)
  have "login_try bk username password w =
      (Inr (JObj [''success'' \<mapsto> JBool True]), setIsAuthenticated True (setUser (data r2) ?w3))"
    by (simp add: login_try_def Let_def a1 assms(3) a2)
  then have *: "login bk username password w =
      (Inr (JObj [''success'' \<mapsto> JBool True]), setIsAuthenticated True (setUser (data r2) ?w3))"
    by (simp add: login_def)
  show "fst (login bk username password w) = Inr (JObj [''success'' \<mapsto> JBool True])"
    by (simp add: *)
  show "session (snd (login bk username password w)) =
           (session w)\<lparr>user := data r2, isAuthenticated := True, error := JNull\<rparr>"
    by (simp add: * store_defs)
  show "localStorage (snd (login bk username password w)) =
           (localStorage w)(''token'' \<mapsto> to_string tok)"
    by (simp add: * store_defs)
qed

lemma login_ok_inv:
  assumes "is_success (fst (login bk username password w))"
  shows "\<exists>r1 tok r2. bk (length (net_log w)) = Some r1 \<and> validateStatus (status r1)
     \<and> get_prop (data r1) ''access_token'' = Inr tok
     \<and> bk (Suc (length (net_log w))) = Some r2 \<and> validateStatus (status r2)"
proof -
  let ?w0 = "setError JNull w"
  let ?c = "api_config POST ''/api/auth/login'' (JObj [''username'' \<mapsto> username, ''password'' \<mapsto> password])"
  have l0: "net_log ?w0 = net_log w" by (simp add: setError_def)
  obtain x1 w1 where a1: "api_request bk ?c ?w0 = (x1, w1)" by (cases "api_request bk ?c ?w0")
  have x1: "x1 = (case bk (length (net_log w)) of
        None \<Rightarrow> Inl (AxiosError None)
      | Some r \<Rightarrow> if validateStatus (status r) then Inr r else Inl (AxiosError (Some r)))"
    using api_request_result[of bk ?c ?w0] a1 by (simp add: l0)
  have n1: "net_log w1 = net_log w @ [(onRequest ?c ?w0, bk (length (net_log w)))]"
    using api_request_net_log[of bk ?c ?w0] a1 by (simp add: l0)
  show ?thesis
  proof (cases x1)
    case (Inl e)
    with a1 have "login bk username password w = login_catch e w1"
      by (simp add: login_def login_try_def apiService_login_def Let_def)
    with assms login_catch_not_success show ?thesis by simp
  next
    case (Inr r1)
    with x1 have b1: "bk (length (net_log w)) = Some r1" "validateStatus (status r1)"
      by (auto split: option.splits if_splits)
    show ?thesis
    proof (cases "get_prop (data r1) ''access_token''")
      case (Inl e)
      with a1 Inr have "login bk username password w = login_catch e w1"
        by (simp add: login_def login_try_def apiService_login_def Let_def)
      with assms login_catch_not_success show ?thesis by simp
    next
      case tok: (Inr tok)
      let ?w2 = "setItem ''token'' tok w1"
      let ?m = "api_config GET ''/api/auth/me'' JUndefined"
      have l2: "length (net_log ?w2) = Suc (length (net_log w))" by (simp add: setItem_def n1)
      obtain x3 w3 where a3: "api_request bk ?m ?w2 = (x3, w3)" by (cases "api_request bk ?m ?w2")
      have x3: "x3 = (case bk (Suc (length (net_log w))) of
            None \<Rightarrow> Inl (AxiosError None)
          | Some r \<Rightarrow> if validateStatus (status r) then Inr r else Inl (AxiosError (Some r)))"
        using api_request_result[of bk ?m ?w2] a3 by (simp only: l2 fst_conv)
      show ?thesis
      proof (cases x3)
        case (Inl e)
        with a1 Inr tok a3 have "login bk username password w = login_catch e w3"
          by (simp add: login_def login_try_def apiService_login_def apiService_getCurrentUser_def Let_def)
        with assms login_catch_not_success show ?thesis by simp
      next
        case r2: (Inr r2)
        with x3 have "bk (Suc (length (net_log w))) = Some r2" "validateStatus (status r2)"
          by (auto split: option.splits if_splits)
        with b1 tok show ?thesis by blast
      qed
    qed
  qed
qed

text \<open>
  C1. When the credential exchange is answered with a 2xx response whose body carries
  the token \<open>T\<close>, and the request for the current user that follows is answered with a
  2xx response carrying \<open>P\<close>, then \<open>login\<close> returns \<open>{success: true}\<close>, the session
  is authenticated with \<open>user = P\<close>, and the stored token is \<open>T\<close>. The \<open>loading\<close>
  cell is left as it was.
\<close>

theorem login_success:
  assumes "bk (length (net_log w)) = Some r1" "validateStatus (status r1)"
    and "get_prop (data r1) ''access_token'' = Inr (JStr T)"
    and "bk (Suc (length (net_log w))) = Some r2" "validateStatus (status r2)"
    and "data r2 = P"
  shows "fst (login bk username password w) = Inr (JObj [''success'' \<mapsto> JBool True])
    \<and> isAuthenticated (session (snd (login bk username password w))) = True
    \<and> user (session (snd (login bk username password w))) = P
    \<and> getItem ''token'' (snd (login bk username password w)) = Some T
    \<and> loading (session (snd (login bk username password w))) = loading (session w)"
  using login_fulfilled[OF assms(1-5), of username password] assms(6)
  by (simp add: getItem_def)

theorem login_success_witness:
  "scripted [Some token_response, Some profile_response] (length (net_log fresh_world)) = Some token_response
   \<and> validateStatus (status token_response)
   \<and> get_prop (data token_response) ''access_token'' = Inr (JStr ''T1'')
   \<and> scripted [Some token_response, Some profile_response] (Suc (length (net_log fresh_world))) = Some profile_response
   \<and> validateStatus (status profile_response)
   \<and> fst (login (scripted [Some token_response, Some profile_response]) (JStr ''u'') (JStr ''p'') fresh_world)
        = Inr (JObj [''success'' \<mapsto> JBool True])
   \<and> user (session (snd (login (scripted [Some token_response, Some profile_response]) (JStr ''u'') (JStr ''p'') fresh_world))) = profile
   \<and> getItem ''token'' (snd (login (scripted [Some token_response, Some profile_response]) (JStr ''u'') (JStr ''p'') fresh_world)) = Some ''T1''"
  using login_success[of "scripted [Some token_response, Some profile_response]" fresh_world
      token_response "''T1''" profile_response profile "JStr ''u''" "JStr ''p''"]
  by (simp add: scenario_defs)

text \<open>
  C2, as stated, fails when the rejection has status 401 and a token was stored before
  the call: the response interceptor removes it.
\<close>

theorem login_rejected_counterexample:
  "getItem ''token'' (snd (login (scripted [Some bad_credentials]) (JStr ''u'') (JStr ''p'')
                             (stored_world ''abc'')))
   \<noteq> getItem ''token'' (stored_world ''abc'')"
  by (simp add: run_defs scenario_defs store_defs)

text \<open>
  C2, amended. When the credential exchange is answered with an error response,
  \<open>login\<close> returns \<open>{success: false, error: m}\<close>, where \<open>m\<close> is the \<open>detail\<close> of
  the response body if that is truthy and the fixed fallback message otherwise, and
  records \<open>m\<close> as the session's error. The stored token is the one stored before the
  call, unless the status is 401: then no token is stored afterwards.
\<close>

theorem login_rejected:
  assumes "bk (length (net_log w)) = Some r" "\<not> validateStatus (status r)"
  shows "fst (login bk username password w) =
      Inr (JObj [''success'' \<mapsto> JBool False,
                 ''error'' \<mapsto> js_or (opt_prop (data r) ''detail'') (JStr login_failed_message)])
    \<and> error (session (snd (login bk username password w))) =
        js_or (opt_prop (data r) ''detail'') (JStr login_failed_message)
    \<and> getItem ''token'' (snd (login bk username password w)) =
        (if status r = 401 then None else getItem ''token'' w)"
proof -
  let ?w0 = "setError JNull w"
  let ?c = "api_config POST ''/api/auth/login'' (JObj [''username'' \<mapsto> username, ''password'' \<mapsto> password])"
  let ?w1 = "?w0\<lparr>net_log := net_log ?w0 @ [(onRequest ?c ?w0, Some r)]\<rparr>"
  have l0: "net_log ?w0 = net_log w" by (simp add: setError_def)
  have a1: "apiService_login bk (JObj [''username'' \<mapsto> username, ''password'' \<mapsto> password]) ?w0
      = onResponseError (AxiosError (Some r)) ?w1"
    unfolding apiService_login_def
    by (rule api_request_rejected) (simp_all add: l0 assms)
  have "login_try bk username password w =
      (Inl (AxiosError (Some r)), snd (onResponseError (AxiosError (Some r)) ?w1))"
    by (simp add: login_try_def Let_def a1 onResponseError_def)
  then have "login bk username password w =
     login_catch (AxiosError (Some r)) (snd (onResponseError (AxiosError (Some r)) ?w1))"
    by (simp add: login_def onResponseError_def)
  then show ?thesis
    by (simp add: login_catch_def Let_def onResponseError_def store_defs)
qed

theorem login_rejected_witness:
  "scripted [Some inactive_user] (length (net_log (stored_world ''abc''))) = Some inactive_user
   \<and> \<not> validateStatus (status inactive_user)
   \<and> fst (login (scripted [Some inactive_user]) (JStr ''u'') (JStr ''p'') (stored_world ''abc'')) =
       Inr (JObj [''success'' \<mapsto> JBool False, ''error'' \<mapsto> JStr ''Inactive user''])
   \<and> getItem ''token'' (snd (login (scripted [Some inactive_user]) (JStr ''u'') (JStr ''p'')
                                (stored_world ''abc''))) = Some ''abc''"
  using login_rejected[of "scripted [Some inactive_user]" "stored_world ''abc''" inactive_user
      "JStr ''u''" "JStr ''p''"]
  by (simp add: scenario_defs js_or_def getItem_def)

section \<open>Properties of register\<close>

lemma register_catch_not_success: "\<not> is_success (fst (register_catch e w))"
  by (simp add: register_catch_def Let_def is_success_def)

lemma get_prop_opt_prop: "get_prop v k = Inr x \<Longrightarrow> x = opt_prop v k"
  by (cases v) auto

lemma register_ok_inv:
  assumes "is_success (fst (register bk userData w))"
  shows "\<exists>w1. session w1 = (session w)\<lparr>error := JNull\<rparr> \<and> localStorage w1 = localStorage w
          \<and> length (net_log w1) = Suc (length (net_log w))
          \<and> is_success (fst (login bk (opt_prop userData ''username'') (opt_prop userData ''password'') w1))
          \<and> snd (register bk userData w) =
              snd (login bk (opt_prop userData ''username'') (opt_prop userData ''password'') w1)"
proof -
  let ?w0 = "setError JNull w"
  let ?c = "api_config POST ''/api/auth/register'' userData"
  obtain x1 w1 where a1: "api_request bk ?c ?w0 = (x1, w1)" by (cases "api_request bk ?c ?w0")
  have s1: "session w1 = (session w)\<lparr>error := JNull\<rparr>"
    using api_request_session[of bk ?c ?w0] a1 by (simp add: setError_def)
  have n1: "length (net_log w1) = Suc (length (net_log w))"
    using api_request_net_log[of bk ?c ?w0] a1 by (simp add: setError_def)
  show ?thesis
  proof (cases x1)
    case (Inl e)
    with a1 have "register bk userData w = register_catch e w1"
      by (simp add: register_def register_try_def apiService_register_def Let_def)
    with assms register_catch_not_success show ?thesis by simp
  next
    case (Inr r0)
    with a1 have "fst (api_request bk ?c ?w0) = Inr r0" by simp
    then have "w1 = ?w0\<lparr>net_log := net_log ?w0 @ [(onRequest ?c ?w0, bk (length (net_log ?w0)))]\<rparr>"
      using a1 by (auto simp: api_request_def Let_def onResponseError_def split: option.splits if_splits)
    then have t1: "localStorage w1 = localStorage w" by (simp add: setError_def)
    show ?thesis
    proof (cases "get_prop userData ''username''")
      case (Inl e)
      with a1 Inr have "register bk userData w = register_catch e w1"
        by (simp add: register_def register_try_def apiService_register_def Let_def)
      with assms register_catch_not_success show ?thesis by simp
    next
      case un: (Inr un)
      then have un': "un = opt_prop userData ''username''" by (rule get_prop_opt_prop)
      show ?thesis
      proof (cases "get_prop userData ''password''")
        case (Inl e)
        with a1 Inr un have "register bk userData w = register_catch e w1"
          by (simp add: register_def register_try_def apiService_register_def Let_def)
        with assms register_catch_not_success show ?thesis by simp
      next
        case pw: (Inr pw)
        then have pw': "pw = opt_prop userData ''password''" by (rule get_prop_opt_prop)
        obtain x2 w2 where a2: "login bk un pw w1 = (x2, w2)" by (cases "login bk un pw w1")
        show ?thesis
        proof (cases x2)
          case (Inl e)
          with a1 Inr un pw a2 have "register bk userData w = register_catch e w2"
            by (simp add: register_def register_try_def apiService_register_def Let_def)
          with assms register_catch_not_success show ?thesis by simp
        next
          case res: (Inr res)
          show ?thesis
          proof (cases "get_prop res ''success''")
            case (Inl e)
            with a1 Inr un pw a2 res have "register bk userData w = register_catch e w2"
              by (simp add: register_def register_try_def apiService_register_def Let_def)
            with assms register_catch_not_success show ?thesis by simp
          next
            case ok: (Inr ok)
            then have ok': "ok = opt_prop res ''success''" by (rule get_prop_opt_prop)
            have reg: "register bk userData w =
                (if truthy ok
                 then (Inr (JObj [''success'' \<mapsto> JBool True, ''user'' \<mapsto> data r0]), w2)
                 else (Inr (JObj [''success'' \<mapsto> JBool False,
                                  ''error'' \<mapsto> JStr register_login_failed_message]), w2))"
              using a1 Inr un pw a2 res ok
              by (simp add: register_def register_try_def apiService_register_def Let_def)
            with assms have "truthy ok" by (auto simp: is_success_def split: if_splits)
            with reg a2 res ok' un' pw' s1 t1 n1 show ?thesis
              by (auto simp: is_success_def)
          qed
        qed
      qed
    qed
  qed
qed

text \<open>
  C8. Take a \<open>register\<close> call that succeeds and a direct \<open>login\<close> call, with the
  user name and password of the same data and from the same starting state, that
  succeeds too, the backend giving the direct login the same two answers (token and
  profile) it gave the automatic one. Then both leave the same session cells and the
  same storage, and the session is authenticated.
\<close>

theorem register_login_round_trip:
  assumes "is_success (fst (register bkr userData w))"
    and "is_success (fst (login bkl (opt_prop userData ''username'') (opt_prop userData ''password'') w))"
    and "bkl (length (net_log w)) = bkr (Suc (length (net_log w)))"
    and "bkl (Suc (length (net_log w))) = bkr (Suc (Suc (length (net_log w))))"
  shows "session (snd (register bkr userData w)) =
           session (snd (login bkl (opt_prop userData ''username'') (opt_prop userData ''password'') w))
       \<and> localStorage (snd (register bkr userData w)) =
           localStorage (snd (login bkl (opt_prop userData ''username'') (opt_prop userData ''password'') w))
       \<and> isAuthenticated (session (snd (register bkr userData w))) = True"
proof -
  let ?u = "opt_prop userData ''username''" and ?p = "opt_prop userData ''password''"
  from register_ok_inv[OF assms(1)] obtain w1 where
    s1: "session w1 = (session w)\<lparr>error := JNull\<rparr>" and t1: "localStorage w1 = localStorage w"
    and n1: "length (net_log w1) = Suc (length (net_log w))"
    and ok1: "is_success (fst (login bkr ?u ?p w1))"
    and eq: "snd (register bkr userData w) = snd (login bkr ?u ?p w1)"
    by blast
  from login_ok_inv[OF ok1] obtain r1 tok r2 where
    b: "bkr (Suc (length (net_log w))) = Some r1" "validateStatus (status r1)"
       "get_prop (data r1) ''access_token'' = Inr tok"
       "bkr (Suc (Suc (length (net_log w)))) = Some r2" "validateStatus (status r2)"
    by (auto simp: n1)
  have R: "session (snd (login bkr ?u ?p w1)) = (session w1)\<lparr>user := data r2, isAuthenticated := True, error := JNull\<rparr>"
     "localStorage (snd (login bkr ?u ?p w1)) = (localStorage w1)(''token'' \<mapsto> to_string tok)"
    using login_fulfilled(2,3)[of bkr w1 r1 tok r2 ?u ?p] b by (simp_all add: n1)
  have L: "session (snd (login bkl ?u ?p w)) = (session w)\<lparr>user := data r2, isAuthenticated := True, error := JNull\<rparr>"
     "localStorage (snd (login bkl ?u ?p w)) = (localStorage w)(''token'' \<mapsto> to_string tok)"
    using login_fulfilled(2,3)[of bkl w r1 tok r2 ?u ?p] b assms(3,4) by simp_all
  show ?thesis by (simp add: eq R L s1 t1)
qed

theorem round_trip_witness:
  "is_success (fst (register (scripted [Some created_response, Some token_response, Some profile_response]) new_user fresh_world))
  \<and> is_success (fst (login (scripted [Some token_response, Some profile_response]) (JStr ''u'') (JStr ''p'') fresh_world))
  \<and> session (snd (register (scripted [Some created_response, Some token_response, Some profile_response]) new_user fresh_world))
     = session (snd (login (scripted [Some token_response, Some profile_response]) (JStr ''u'') (JStr ''p'') fresh_world))
  \<and> localStorage (snd (register (scripted [Some created_response, Some token_response, Some profile_response]) new_user fresh_world))
     = localStorage (snd (login (scripted [Some token_response, Some profile_response]) (JStr ''u'') (JStr ''p'') fresh_world))"
proof -
  have r: "is_success (fst (register (scripted [Some created_response, Some token_response, Some profile_response]) new_user fresh_world))"
    by (simp add: run_defs scenario_defs store_defs)
  have l: "is_success (fst (login (scripted [Some token_response, Some profile_response]) (opt_prop new_user ''username'') (opt_prop new_user ''password'') fresh_world))"
    by (simp add: run_defs scenario_defs store_defs)
  have u: "opt_prop new_user ''username'' = JStr ''u''" "opt_prop new_user ''password'' = JStr ''p''"
    by (simp_all add: new_user_def)
  from register_login_round_trip[OF r l] r l show ?thesis
    by (simp add: u scripted_def fresh_world_def)
qed

section \<open>Properties of logout\<close>

lemma logout_session:
  "session (snd (logout bk w)) = (session w)\<lparr>user := JNull, isAuthenticated := False, error := JNull\<rparr>"
proof (cases "api_request bk (api_config POST ''/api/auth/logout'' JUndefined) w")
  case (Pair r w1)
  with api_request_session[of bk "api_config POST ''/api/auth/logout'' JUndefined" w]
  have "session w1 = session w" by simp
  with Pair show ?thesis
    by (cases r) (simp_all add: logout_def apiService_logout_def store_defs)
qed

lemma logout_storage:
  "localStorage (snd (logout bk w)) = (localStorage w)(''token'' := None)"
proof (cases "api_request bk (api_config POST ''/api/auth/logout'' JUndefined) w")
  case (Pair r w1)
  have "localStorage w1 k = localStorage w k" if "k \<noteq> ''token''" for k
    using api_request_storage_other[of k bk "api_config POST ''/api/auth/logout'' JUndefined" w]
      Pair that by simp
  then have "(localStorage w1)(''token'' := None) = (localStorage w)(''token'' := None)"
    by (auto simp: fun_eq_iff)
  with Pair show ?thesis
    by (cases r) (simp_all add: logout_def apiService_logout_def store_defs)
qed

text \<open>
  C5. Whatever the invalidation request yields (a 2xx response, an error response, no
  response at all), \<open>logout\<close> returns normally, and afterwards the session is not
  authenticated, has no user, and no token is left in storage.
\<close>

theorem logout_always_anonymous:
  "fst (logout bk w) = Inr JUndefined
   \<and> isAuthenticated (session (snd (logout bk w))) = False
   \<and> user (session (snd (logout bk w))) = JNull
   \<and> getItem ''token'' (snd (logout bk w)) = None"
  by (simp add: logout_def Let_def store_defs split: prod.splits sum.splits)

text \<open>
  C6. \<open>logout\<close> is idempotent on the session and on storage: a second call, whatever
  the backend answers to it, leaves both as the first call left them.
\<close>

theorem logout_idempotent:
  "session (snd (logout bk (snd (logout bk w)))) = session (snd (logout bk w))
   \<and> localStorage (snd (logout bk (snd (logout bk w)))) = localStorage (snd (logout bk w))"
  by (simp add: logout_session logout_storage)

text \<open>
  C9. After \<open>logout\<close> the recorded error is \<open>null\<close>, whatever it was before.
\<close>

theorem logout_clears_error: "error (session (snd (logout bk w))) = JNull"
  by (simp add: logout_def Let_def store_defs split: prod.splits sum.splits)

section \<open>Properties of the accessor\<close>

lemma login_returns: "\<exists>x. fst (login bk username password w) = Inr x"
  by (simp add: login_def login_catch_def Let_def split: prod.splits sum.splits)

lemma register_returns: "\<exists>x. fst (register bk userData w) = Inr x"
  by (simp add: register_def register_catch_def Let_def split: prod.splits sum.splits)

lemma checkAuth_returns: "fst (checkAuth bk w) = Inr JUndefined"
  by (simp add: checkAuth_def split: option.splits prod.splits sum.splits)

text \<open>
  C10. With no enclosing provider \<open>useAuth\<close> throws an \<open>Error\<close> with the message
  \<open>useAuth must be used within an AuthProvider\<close>; inside a provider it returns the
  provider's value. The four session operations never throw: each of them returns.
\<close>

theorem useAuth_outside_provider_throws:
  "useAuth ([] :: 'v option list) = Inl (Error ''useAuth must be used within an AuthProvider'')
   \<and> useAuth (Some (v :: 'v) # ps) = Inr v
   \<and> useAuth (AuthProvider_value w # qs) = Inr (session w)
   \<and> (\<exists>x. fst (checkAuth bk w) = Inr x)
   \<and> (\<exists>x. fst (login bk username password w) = Inr x)
   \<and> (\<exists>x. fst (register bk userData w) = Inr x)
   \<and> (\<exists>x. fst (logout bk w) = Inr x)"
  by (simp add: useAuth_def useContext_def AuthContext_default_def AuthProvider_value_def
      login_returns register_returns checkAuth_returns logout_def Let_def)

end
